theory Spec2Isabelle
  imports Complex_Main "HOL-Library.Sublist"
begin

section \<open>Strings and the text extraction helper\<close>

text \<open>
  A Python \<open>str\<close> is a sequence of Unicode code points; it is modelled as a list of
  code points. The regular-expression class \<open>\d\<close> on a \<open>str\<close> pattern and the
  conversion \<open>int(...)\<close> both consult the interpreter's Unicode table of decimal digits.
  That table is not part of the repository, so it is a parameter \<open>dv\<close> of the model:
  \<open>dv c = Some d\<close> when code point \<open>c\<close> is a decimal digit of value \<open>d\<close>.
  \<open>ascii_dv\<close> is the table restricted to \<open>0\<close>..\<open>9\<close>.
\<close>

type_synonym pystr = "nat list"

type_synonym digit_table = "nat \<Rightarrow> nat option"

datatype exn = TimeoutError | DriverError | ValueError

definition ascii_dv :: digit_table where
  "ascii_dv c = (if 48 \<le> c \<and> c \<le> 57 then Some (c - 48) else None)"

definition is_digit :: "digit_table \<Rightarrow> nat \<Rightarrow> bool" where
  "is_digit dv c = (dv c \<noteq> None)"

text \<open>\<open>text.replace(a, b)\<close> for one-character \<open>a\<close> and \<open>b\<close>.\<close>

definition replace_char :: "nat \<Rightarrow> nat \<Rightarrow> pystr \<Rightarrow> pystr" where
  "replace_char a b text = map (\<lambda>c. if c = a then b else c) text"

text \<open>
  \<open>re.search(r"(\d+)", text)\<close>: the leftmost position at which a digit stands, and
  from there the longest run of digits (the quantifier is greedy). The result is group 1.
\<close>

definition re_search_digits :: "digit_table \<Rightarrow> pystr \<Rightarrow> pystr option" where
  "re_search_digits dv text =
     (case dropWhile (\<lambda>c. \<not> is_digit dv c) text of
        [] \<Rightarrow> None
      | c # cs \<Rightarrow> Some (takeWhile (is_digit dv) (c # cs)))"

text \<open>
  \<open>int(s)\<close> on a string of decimal digits, read left to right. The empty string and a
  character that is no digit raise \<open>ValueError\<close>. (Signs, surrounding blanks and
  underscores, which \<open>int\<close> also reads, never reach it from \<open>_parse_int\<close>: group 1
  holds digits only. The interpreter's configurable cap on the length of the digit
  string is not modelled: Python integers are unbounded.)
\<close>

fun int_digits :: "digit_table \<Rightarrow> pystr \<Rightarrow> int \<Rightarrow> exn + int" where
  "int_digits dv [] acc = Inr acc"
| "int_digits dv (c # cs) acc =
     (case dv c of
        None \<Rightarrow> Inl ValueError
      | Some d \<Rightarrow> int_digits dv cs (acc * 10 + int d))"

definition py_int :: "digit_table \<Rightarrow> pystr \<Rightarrow> exn + int" where
  "py_int dv s = (if s = [] then Inl ValueError else int_digits dv s 0)"

text \<open>
  \<^verbatim>\<open>
  def _parse_int(text: str) -> int | None:
      if not text:
          return None
      text = text.replace("\xa0", " ")
      m = re.search(r"(\d+)", text)
      return int(m.group(1)) if m else None
  \<close>
\<close>

definition parse_int :: "digit_table \<Rightarrow> pystr \<Rightarrow> exn + int option" where
  "parse_int dv text =
     (if text = [] then Inr None
      else
        let text' = replace_char 160 32 text in
        case re_search_digits dv text' of
          None \<Rightarrow> Inr None
        | Some g \<Rightarrow> (case py_int dv g of Inl e \<Rightarrow> Inl e | Inr v \<Rightarrow> Inr (Some v)))"

subsection \<open>What the specification calls the first digit run and its value\<close>






section \<open>The browser driver\<close>

text \<open>
  The script drives a live page through a browser-automation library. The library and
  the page are outside the repository, so the model takes them as a parameter: a
  \<open>driver\<close> gives, for every call the script makes, the value it returns or the
  exception it raises, and the state of the page afterwards. Nothing is assumed about
  a driver: every theorem below holds for all of them.

  The selectors are the literal selector strings of the source, one constructor each.
\<close>

datatype selector =
    VacancyCard        \<comment> \<open>\<open>[data-qa="vacancy-serp__vacancy"]\<close>\<close>
  | VacancyResponse    \<comment> \<open>\<open>[data-qa="vacancy-serp__vacancy_response"]\<close>\<close>
  | TitleText          \<comment> \<open>\<open>[data-qa="serp-item__title-text"]\<close>\<close>
  | TitleLink          \<comment> \<open>\<open>a[data-qa="serp-item__title"]\<close>\<close>
  | WatchersSpan       \<comment> \<open>\<open>span:has-text(...)\<close>, the viewers line\<close>
  | SuccessToast       \<comment> \<open>\<open>#dialog-description:has-text(...)\<close>, the success toast\<close>
  | Dialog             \<comment> \<open>\<open>[role="dialog"]\<close>\<close>
  | RequiredHint       \<comment> \<open>\<open>[data-qa="form-helper-description"]:has-text(...)\<close>\<close>
  | LetterInput        \<comment> \<open>\<open>[data-qa="vacancy-response-popup-form-letter-input"]\<close>\<close>
  | SubmitButton       \<comment> \<open>\<open>button[type="submit"]\<close>\<close>
  | ApplyTextButton    \<comment> \<open>\<open>button:has-text(...)\<close>, the localized apply label\<close>
  | PopupClose         \<comment> \<open>\<open>[data-qa="response-popup-close"]\<close>\<close>
  | TitleContainer     \<comment> \<open>\<open>[data-qa="title-container"]\<close>\<close>
  | TestDescription    \<comment> \<open>\<open>[data-qa="title-description"]:has-text(...)\<close>\<close>
  | BlacklistShowAdd   \<comment> \<open>\<open>button[data-qa="vacancy__blacklist-show-add"]\<close>\<close>
  | BlacklistMenuAdd   \<comment> \<open>\<open>button[data-qa="vacancy__blacklist-menu-add-vacancy"]\<close>\<close>

datatype locator =
    Page selector               \<comment> \<open>\<open>page.locator(sel)\<close>\<close>
  | Within locator selector     \<comment> \<open>\<open>loc.locator(sel)\<close>\<close>
  | First locator               \<comment> \<open>\<open>loc.first\<close>\<close>
  | Nth locator nat             \<comment> \<open>\<open>loc.nth(i)\<close>\<close>
  | CardOfVacancy pystr         \<comment> \<open>the card locator of \<open>find_card_by_vacancy_id\<close>, before \<open>.first\<close>\<close>

datatype wait_state = Visible | Hidden | Detached

record 's driver =
  page_url :: "'s \<Rightarrow> pystr"
  time_time :: "'s \<Rightarrow> real \<times> 's"
  loc_count :: "locator \<Rightarrow> 's \<Rightarrow> (exn + nat) \<times> 's"
  loc_click :: "locator \<Rightarrow> int option \<Rightarrow> 's \<Rightarrow> (exn + unit) \<times> 's"
  loc_fill :: "locator \<Rightarrow> pystr \<Rightarrow> 's \<Rightarrow> (exn + unit) \<times> 's"
  loc_wait_for :: "locator \<Rightarrow> wait_state \<Rightarrow> int \<Rightarrow> 's \<Rightarrow> (exn + unit) \<times> 's"
  loc_scroll_into_view :: "locator \<Rightarrow> int \<Rightarrow> 's \<Rightarrow> (exn + unit) \<times> 's"
  loc_inner_text :: "locator \<Rightarrow> 's \<Rightarrow> (exn + pystr) \<times> 's"
  loc_get_href :: "locator \<Rightarrow> 's \<Rightarrow> (exn + pystr option) \<times> 's"
  page_wait_for_timeout :: "int \<Rightarrow> 's \<Rightarrow> (exn + unit) \<times> 's"
  page_wait_for_selector :: "selector \<Rightarrow> int \<Rightarrow> 's \<Rightarrow> (exn + unit) \<times> 's"
  page_go_back :: "'s \<Rightarrow> (exn + unit) \<times> 's"
  page_goto :: "pystr \<Rightarrow> 's \<Rightarrow> (exn + unit) \<times> 's"
  page_scroll_to_bottom :: "'s \<Rightarrow> (exn + unit) \<times> 's"

text \<open>
  The script runs in a world: the state of the page, and the history of the driver
  calls made so far, each with what it returned. The history is what the properties of
  issued clicks, navigations and scroll rounds are stated on.
\<close>

datatype call =
    Count locator
  | Click locator
  | Fill locator pystr
  | WaitFor locator wait_state
  | ScrollIntoView locator
  | InnerText locator
  | GetHref locator
  | WaitForTimeout int
  | WaitForSelector selector
  | GoBack
  | Goto pystr
  | ScrollToBottom

datatype outcome = Raised exn | Done | Num nat | Str pystr | StrOpt "pystr option"

record 's world =
  page :: 's
  calls :: "(call \<times> outcome) list"

type_synonym ('s, 'a) act = "'s world \<Rightarrow> (exn + 'a) \<times> 's world"

definition ret :: "'a \<Rightarrow> ('s, 'a) act" where
  "ret x w = (Inr x, w)"

definition raise :: "exn \<Rightarrow> ('s, 'a) act" where
  "raise e w = (Inl e, w)"

text \<open>Sequencing: an exception of the first part skips the rest.\<close>

definition bind :: "('s, 'a) act \<Rightarrow> ('a \<Rightarrow> ('s, 'b) act) \<Rightarrow> ('s, 'b) act" where
  "bind m f w = (case m w of (Inl e, w') \<Rightarrow> (Inl e, w') | (Inr x, w') \<Rightarrow> f x w')"

text \<open>\<open>try: m  except Exception: h\<close>. Every exception of the driver is an \<open>Exception\<close>.\<close>

definition try_except :: "('s, 'a) act \<Rightarrow> (exn \<Rightarrow> ('s, 'a) act) \<Rightarrow> ('s, 'a) act" where
  "try_except m h w = (case m w of (Inl e, w') \<Rightarrow> h e w' | (Inr x, w') \<Rightarrow> (Inr x, w'))"

text \<open>One driver call: run it on the page and append it to the history.\<close>

definition perform ::
  "call \<Rightarrow> ('a \<Rightarrow> outcome) \<Rightarrow> ('s \<Rightarrow> (exn + 'a) \<times> 's) \<Rightarrow> ('s, 'a) act" where
  "perform c out f w =
     (case f (page w) of
        (r, s') \<Rightarrow>
          (r, \<lparr>page = s',
               calls = calls w @ [(c, case r of Inl e \<Rightarrow> Raised e | Inr x \<Rightarrow> out x)]\<rparr>))"

definition count :: "'s driver \<Rightarrow> locator \<Rightarrow> ('s, nat) act" where
  "count d l = perform (Count l) Num (loc_count d l)"

definition click :: "'s driver \<Rightarrow> locator \<Rightarrow> int option \<Rightarrow> ('s, unit) act" where
  "click d l timeout = perform (Click l) (\<lambda>_. Done) (loc_click d l timeout)"

definition fill :: "'s driver \<Rightarrow> locator \<Rightarrow> pystr \<Rightarrow> ('s, unit) act" where
  "fill d l s = perform (Fill l s) (\<lambda>_. Done) (loc_fill d l s)"

definition wait_for :: "'s driver \<Rightarrow> locator \<Rightarrow> wait_state \<Rightarrow> int \<Rightarrow> ('s, unit) act" where
  "wait_for d l st timeout = perform (WaitFor l st) (\<lambda>_. Done) (loc_wait_for d l st timeout)"

definition scroll_into_view_if_needed :: "'s driver \<Rightarrow> locator \<Rightarrow> int \<Rightarrow> ('s, unit) act" where
  "scroll_into_view_if_needed d l timeout =
     perform (ScrollIntoView l) (\<lambda>_. Done) (loc_scroll_into_view d l timeout)"

definition inner_text :: "'s driver \<Rightarrow> locator \<Rightarrow> ('s, pystr) act" where
  "inner_text d l = perform (InnerText l) Str (loc_inner_text d l)"

definition get_href :: "'s driver \<Rightarrow> locator \<Rightarrow> ('s, pystr option) act" where
  "get_href d l = perform (GetHref l) StrOpt (loc_get_href d l)"

definition wait_for_timeout :: "'s driver \<Rightarrow> int \<Rightarrow> ('s, unit) act" where
  "wait_for_timeout d ms = perform (WaitForTimeout ms) (\<lambda>_. Done) (page_wait_for_timeout d ms)"

definition wait_for_selector :: "'s driver \<Rightarrow> selector \<Rightarrow> int \<Rightarrow> ('s, unit) act" where
  "wait_for_selector d sel timeout =
     perform (WaitForSelector sel) (\<lambda>_. Done) (page_wait_for_selector d sel timeout)"

definition go_back :: "'s driver \<Rightarrow> ('s, unit) act" where
  "go_back d = perform GoBack (\<lambda>_. Done) (page_go_back d)"

definition goto :: "'s driver \<Rightarrow> pystr \<Rightarrow> ('s, unit) act" where
  "goto d u = perform (Goto u) (\<lambda>_. Done) (page_goto d u)"

definition scroll_to_bottom :: "'s driver \<Rightarrow> ('s, unit) act" where
  "scroll_to_bottom d = perform ScrollToBottom (\<lambda>_. Done) (page_scroll_to_bottom d)"

text \<open>Reading the clock (\<open>time.time()\<close>) is no call on the page and cannot raise.\<close>

definition clock_read :: "'s driver \<Rightarrow> 's world \<Rightarrow> real \<times> 's world" where
  "clock_read d w = (case time_time d (page w) of (t, s') \<Rightarrow> (t, w\<lparr>page := s'\<rparr>))"

section \<open>The listing loader\<close>




section \<open>The listing parser\<close>

record vacancy =
  vacancy_id :: pystr
  title :: pystr
  watchers_text :: pystr
  watchers_count :: "int option"
  description :: "pystr option"

text \<open>
  \<open>re.search(r"/vacancy/(\d+)", href)\<close>: the leftmost position at which the literal
  \<open>/vacancy/\<close> is followed by at least one digit; group 1 is the longest run of digits
  after the literal.
\<close>

definition vacancy_literal :: pystr where
  "vacancy_literal = [47, 118, 97, 99, 97, 110, 99, 121, 47]"

definition match_vacancy_at :: "digit_table \<Rightarrow> pystr \<Rightarrow> pystr option" where
  "match_vacancy_at dv s =
     (if prefix vacancy_literal s then
        (case takeWhile (is_digit dv) (drop (length vacancy_literal) s) of
           [] \<Rightarrow> None
         | c # cs \<Rightarrow> Some (c # cs))
      else None)"

fun re_search_vacancy :: "digit_table \<Rightarrow> pystr \<Rightarrow> pystr option" where
  "re_search_vacancy dv [] = None"
| "re_search_vacancy dv (c # cs) =
     (case match_vacancy_at dv (c # cs) of
        Some g \<Rightarrow> Some g
      | None \<Rightarrow> re_search_vacancy dv cs)"

text \<open>
  \<open>str.strip()\<close> removes the characters for which \<open>str.isspace\<close> holds from both ends.
\<close>

definition py_isspace :: "nat \<Rightarrow> bool" where
  "py_isspace c =
     ((9 \<le> c \<and> c \<le> 13) \<or> (28 \<le> c \<and> c \<le> 32) \<or> c = 133 \<or> c = 160 \<or> c = 5760
      \<or> (8192 \<le> c \<and> c \<le> 8202) \<or> c = 8232 \<or> c = 8233 \<or> c = 8239 \<or> c = 8287
      \<or> c = 12288)"

definition strip :: "pystr \<Rightarrow> pystr" where
  "strip s = rev (dropWhile py_isspace (rev (dropWhile py_isspace s)))"

text \<open>The placeholder used when a card shows no viewers line.\<close>

definition watchers_placeholder :: pystr where
  "watchers_placeholder =
     [1057, 1077, 1081, 1095, 1072, 1089, 32, 1089, 1084, 1086, 1090, 1088, 1103, 1090, 32,
      8212]"

text \<open>
  \<^verbatim>\<open>
  def collect_vacancies_for_apply(page, limit: int = 10) -> list[Vacancy]:
      page.wait_for_selector('[data-qa="vacancy-serp__vacancy"]', timeout=30_000)
      cards = page.locator('[data-qa="vacancy-serp__vacancy"]')
      result: list[Vacancy] = []
      for i in range(cards.count()):
          card = cards.nth(i)
          resp = card.locator('[data-qa="vacancy-serp__vacancy_response"]').first
          if resp.count() == 0:
              continue
          title = card.locator('[data-qa="serp-item__title-text"]').first.inner_text().strip()
          href = card.locator('a[data-qa="serp-item__title"]').first.get_attribute("href") or ""
          m = re.search(r"/vacancy/(\d+)", href)
          if not m:
              continue
          vacancy_id = m.group(1)
          watchers_loc = card.locator('span:has-text(...)').first
          watchers_text = watchers_loc.inner_text().strip() if watchers_loc.count() else ...
          watchers_count = _parse_int(watchers_text)
          result.append(Vacancy(...))
          if len(result) >= limit:
              break
      return result
  \<close>
  The loop runs over the indices \<open>range(cards.count())\<close>, fixed before the first
  iteration.
\<close>

definition card_at :: "nat \<Rightarrow> locator" where
  "card_at i = Nth (Page VacancyCard) i"

definition resp_of :: "locator \<Rightarrow> locator" where
  "resp_of card_loc = First (Within card_loc VacancyResponse)"

definition title_link_of :: "locator \<Rightarrow> locator" where
  "title_link_of card_loc = First (Within card_loc TitleLink)"

fun collect_loop ::
  "'s driver \<Rightarrow> digit_table \<Rightarrow> int \<Rightarrow> nat list \<Rightarrow> vacancy list \<Rightarrow> ('s, vacancy list) act" where
  "collect_loop d dv limit [] result = ret result"
| "collect_loop d dv limit (i # rest) result =
     (let card_loc = card_at i in
      bind (count d (resp_of card_loc)) (\<lambda>n.
        if n = 0 then collect_loop d dv limit rest result
        else
          bind (inner_text d (First (Within card_loc TitleText))) (\<lambda>title_raw.
          bind (get_href d (title_link_of card_loc)) (\<lambda>attr.
            let href = (case attr of None \<Rightarrow> [] | Some h \<Rightarrow> h) in
            case re_search_vacancy dv href of
              None \<Rightarrow> collect_loop d dv limit rest result
            | Some vid \<Rightarrow>
                let watchers_loc = First (Within card_loc WatchersSpan) in
                bind (count d watchers_loc) (\<lambda>wn.
                bind (if wn \<noteq> 0
                      then bind (inner_text d watchers_loc) (\<lambda>t. ret (strip t))
                      else ret watchers_placeholder) (\<lambda>wtext.
                bind (case parse_int dv wtext of Inl e \<Rightarrow> raise e | Inr c \<Rightarrow> ret c) (\<lambda>wcount.
                  let result' = result @
                        [\<lparr>vacancy_id = vid, title = strip title_raw, watchers_text = wtext,
                          watchers_count = wcount, description = None\<rparr>] in
                  if int (length result') \<ge> limit then ret result'
                  else collect_loop d dv limit rest result')))))))"

definition collect_vacancies_for_apply ::
  "'s driver \<Rightarrow> digit_table \<Rightarrow> int \<Rightarrow> ('s, vacancy list) act" where
  "collect_vacancies_for_apply d dv limit =
     bind (wait_for_selector d VacancyCard 30000) (\<lambda>_.
     bind (count d (Page VacancyCard)) (\<lambda>n.
       collect_loop d dv limit [0..<n] []))"

definition find_card_by_vacancy_id :: "pystr \<Rightarrow> locator" where
  "find_card_by_vacancy_id vid = First (CardOfVacancy vid)"

section \<open>The redirect to the employer's questions\<close>

text \<open>
  \<^verbatim>\<open>
  def is_test_page(page) -> bool:
      container = page.locator('[data-qa="title-container"]').first
      if container.count() == 0:
          return False
      desc = page.locator('[data-qa="title-description"]:has-text(...)').first
      return desc.count() > 0

  def safe_go_back_to_serp(page, fallback_url: str) -> None:
      try:
          page.go_back(wait_until="domcontentloaded")
      except Exception:
          page.goto(fallback_url, wait_until="domcontentloaded")
      page.wait_for_selector('[data-qa="vacancy-serp__vacancy"]', timeout=15_000)
  \<close>
\<close>

definition is_test_page :: "'s driver \<Rightarrow> ('s, bool) act" where
  "is_test_page d =
     bind (count d (First (Page TitleContainer))) (\<lambda>n.
       if n = 0 then ret False
       else bind (count d (First (Page TestDescription))) (\<lambda>m. ret (m > 0)))"

definition safe_go_back_to_serp :: "'s driver \<Rightarrow> pystr \<Rightarrow> ('s, unit) act" where
  "safe_go_back_to_serp d fallback_url =
     bind (try_except (go_back d) (\<lambda>e. goto d fallback_url)) (\<lambda>_.
       wait_for_selector d VacancyCard 15000)"

section \<open>The modal that demands a cover letter\<close>

text \<open>
  \<^verbatim>\<open>
  def is_cover_letter_required_modal(page) -> bool:
      dlg = page.locator('[role="dialog"]').first
      if dlg.count() == 0:
          return False
      required_hint = dlg.locator('[data-qa="form-helper-description"]:has-text(...)').first
      letter_input = dlg.locator('[data-qa="vacancy-response-popup-form-letter-input"]').first
      return required_hint.count() > 0 and letter_input.count() > 0
  \<close>
  \<open>and\<close> evaluates its second operand only when the first one holds.
\<close>

definition dlg :: locator where
  "dlg = First (Page Dialog)"

definition letter_input :: locator where
  "letter_input = First (Within dlg LetterInput)"

definition is_cover_letter_required_modal :: "'s driver \<Rightarrow> ('s, bool) act" where
  "is_cover_letter_required_modal d =
     bind (count d dlg) (\<lambda>n.
       if n = 0 then ret False
       else
         bind (count d (First (Within dlg RequiredHint))) (\<lambda>h.
           if h > 0 then bind (count d letter_input) (\<lambda>l. ret (l > 0))
           else ret False))"

text \<open>
  \<^verbatim>\<open>
  def fill_and_submit_cover_letter(page, cover_letter_text, timeout_ms=10_000) -> bool:
      try:
          dlg = page.locator('[role="dialog"]').first
          dlg.wait_for(state="visible", timeout=timeout_ms)
          letter_input = dlg.locator('[data-qa="...letter-input"]').first
          letter_input.wait_for(state="visible", timeout=timeout_ms)
          letter_input.click()
          letter_input.fill(cover_letter_text)
          page.wait_for_timeout(500)
          submit_btn = dlg.locator('button[type="submit"]').first
          if submit_btn.count() == 0:
              submit_btn = dlg.locator('button:has-text(...)').first
          if submit_btn.count() == 0:
              return False
          submit_btn.click()
          page.wait_for_timeout(2000)
          success_indicator = page.locator('#dialog-description:has-text(...)').first
          if success_indicator.count() > 0:
              return True
          try:
              dlg.wait_for(state="hidden", timeout=3000)
              return True
          except Exception:
              pass
          return False
      except Exception as e:
          return False
  \<close>
\<close>

definition fill_and_submit_cover_letter :: "'s driver \<Rightarrow> pystr \<Rightarrow> int \<Rightarrow> ('s, bool) act" where
  "fill_and_submit_cover_letter d cover_letter_text timeout_ms =
     try_except
       (bind (wait_for d dlg Visible timeout_ms) (\<lambda>_.
        bind (wait_for d letter_input Visible timeout_ms) (\<lambda>_.
        bind (click d letter_input None) (\<lambda>_.
        bind (fill d letter_input cover_letter_text) (\<lambda>_.
        bind (wait_for_timeout d 500) (\<lambda>_.
        bind (count d (First (Within dlg SubmitButton))) (\<lambda>n.
          let submit_btn = (if n = 0 then First (Within dlg ApplyTextButton)
                            else First (Within dlg SubmitButton)) in
          bind (count d submit_btn) (\<lambda>m.
            if m = 0 then ret False
            else
              bind (click d submit_btn None) (\<lambda>_.
              bind (wait_for_timeout d 2000) (\<lambda>_.
              bind (count d (First (Page SuccessToast))) (\<lambda>k.
                if k > 0 then ret True
                else
                  try_except (bind (wait_for d dlg Hidden 3000) (\<lambda>_. ret True))
                    (\<lambda>e. ret False))))))))))))
       (\<lambda>e. ret False)"

text \<open>
  \<^verbatim>\<open>
  def close_response_modal_if_open(page) -> None:
      close_btn = page.locator('[data-qa="response-popup-close"]').first
      if close_btn.count():
          close_btn.click()
          try:
              page.locator('[role="dialog"]').first.wait_for(state="hidden", timeout=5000)
          except Exception:
              pass
  \<close>
\<close>

definition close_response_modal_if_open :: "'s driver \<Rightarrow> ('s, unit) act" where
  "close_response_modal_if_open d =
     bind (count d (First (Page PopupClose))) (\<lambda>n.
       if n \<noteq> 0 then
         bind (click d (First (Page PopupClose)) None) (\<lambda>_.
           try_except (wait_for d dlg Hidden 5000) (\<lambda>e. ret ()))
       else ret ())"

section \<open>Hiding a vacancy\<close>

text \<open>
  \<^verbatim>\<open>
  def hide_vacancy_card(page, card, *, timeout_ms: int = 5000) -> bool:
      hide_icon = card.locator('button[data-qa="vacancy__blacklist-show-add"]').first
      if hide_icon.count() == 0:
          return False
      card.scroll_into_view_if_needed(timeout=timeout_ms)
      try:
          hide_icon.click(timeout=timeout_ms)
      except Exception:
          return False
      menu_item = page.locator('button[data-qa="vacancy__blacklist-menu-add-vacancy"]').first
      try:
          menu_item.wait_for(state="visible", timeout=timeout_ms)
          menu_item.click(timeout=timeout_ms)
      except Exception:
          return False
      try:
          card.wait_for(state="detached", timeout=3000)
      except Exception:
          pass
      return True
  \<close>
  A \<open>return\<close> inside an \<open>except\<close> block ends the function: each \<open>try\<close> yields
  whether its block went through, and the rest runs only if it did.
\<close>

definition hide_icon_of :: "locator \<Rightarrow> locator" where
  "hide_icon_of card_loc = First (Within card_loc BlacklistShowAdd)"

definition menu_item :: locator where
  "menu_item = First (Page BlacklistMenuAdd)"

definition hide_vacancy_card :: "'s driver \<Rightarrow> locator \<Rightarrow> int \<Rightarrow> ('s, bool) act" where
  "hide_vacancy_card d card_loc timeout_ms =
     bind (count d (hide_icon_of card_loc)) (\<lambda>n.
       if n = 0 then ret False
       else
         bind (scroll_into_view_if_needed d card_loc timeout_ms) (\<lambda>_.
         bind (try_except (bind (click d (hide_icon_of card_loc) (Some timeout_ms)) (\<lambda>_. ret True))
                 (\<lambda>e. ret False)) (\<lambda>clicked.
           if \<not> clicked then ret False
           else
             bind (try_except
                     (bind (wait_for d menu_item Visible timeout_ms) (\<lambda>_.
                      bind (click d menu_item (Some timeout_ms)) (\<lambda>_. ret True)))
                     (\<lambda>e. ret False)) (\<lambda>confirmed.
               if \<not> confirmed then ret False
               else
                 bind (try_except (wait_for d card_loc Detached 3000) (\<lambda>e. ret ())) (\<lambda>_.
                   ret True)))))"

section \<open>The outcome classifier\<close>

datatype status =
    Sent | TestRequired | CoverLetterRequired | CoverLetterFilled | ExtraSteps
  | NoApplyButton | Unknown

text \<open>Truth value of an \<open>Optional[str]\<close>: \<open>None\<close> and the empty string are false.\<close>

definition truthy :: "pystr option \<Rightarrow> bool" where
  "truthy s = (case s of None \<Rightarrow> False | Some t \<Rightarrow> t \<noteq> [])"

definition text_of :: "pystr option \<Rightarrow> pystr" where
  "text_of s = (case s of None \<Rightarrow> [] | Some t \<Rightarrow> t)"

text \<open>
  The body of the polling loop, up to the pause at its end. \<open>Some st\<close> is
  \<open>return st\<close>; \<open>None\<close> is falling through to \<open>page.wait_for_timeout(200)\<close>.
  \<^verbatim>\<open>
      if page.locator('#dialog-description:has-text(...)').count():
          return "sent"
      if is_cover_letter_required_modal(page):
          if cover_letter_text:
              if fill_and_submit_cover_letter(page, cover_letter_text):
                  page.wait_for_timeout(1000)
                  if page.locator('#dialog-description:has-text(...)').count():
                      return "sent"
                  return "cover_letter_filled"
              else:
                  close_response_modal_if_open(page)
                  return "cover_letter_required"
          else:
              close_response_modal_if_open(page)
              return "cover_letter_required"
      if page.url != original_url:
          if is_test_page(page):
              safe_go_back_to_serp(page, fallback_url=original_url)
              return "test_required"
          safe_go_back_to_serp(page, fallback_url=original_url)
          return "extra_steps"
  \<close>
\<close>

definition modal_with_text :: "'s driver \<Rightarrow> pystr \<Rightarrow> ('s, status option) act" where
  "modal_with_text d cover_letter_text =
     bind (fill_and_submit_cover_letter d cover_letter_text 10000) (\<lambda>submitted.
       if submitted then
         bind (wait_for_timeout d 1000) (\<lambda>_.
         bind (count d (Page SuccessToast)) (\<lambda>n.
           if n \<noteq> 0 then ret (Some Sent) else ret (Some CoverLetterFilled)))
       else
         bind (close_response_modal_if_open d) (\<lambda>_. ret (Some CoverLetterRequired)))"

definition modal_without_text :: "'s driver \<Rightarrow> ('s, status option) act" where
  "modal_without_text d =
     bind (close_response_modal_if_open d) (\<lambda>_. ret (Some CoverLetterRequired))"

definition redirect_check :: "'s driver \<Rightarrow> pystr \<Rightarrow> ('s, status option) act" where
  "redirect_check d original_url w =
     (if page_url d (page w) \<noteq> original_url then
        bind (is_test_page d) (\<lambda>t.
          if t then bind (safe_go_back_to_serp d original_url) (\<lambda>_. ret (Some TestRequired))
          else bind (safe_go_back_to_serp d original_url) (\<lambda>_. ret (Some ExtraSteps))) w
      else ret None w)"

definition poll_round :: "'s driver \<Rightarrow> pystr \<Rightarrow> pystr option \<Rightarrow> ('s, status option) act" where
  "poll_round d original_url cover_letter_text =
     bind (count d (Page SuccessToast)) (\<lambda>n.
       if n \<noteq> 0 then ret (Some Sent)
       else
         bind (is_cover_letter_required_modal d) (\<lambda>modal.
           if modal then
             (if truthy cover_letter_text
              then modal_with_text d (text_of cover_letter_text)
              else modal_without_text d)
           else redirect_check d original_url))"

text \<open>
  \<^verbatim>\<open>
      deadline = time.time() + poll_timeout_sec
      while time.time() < deadline:
          ... the body above ...
          page.wait_for_timeout(200)
      return "unknown"
  \<close>
  Nothing in the script makes the clock advance, so the loop need not end: it is a
  partial function, and \<open>None\<close> stands for a run that never returns.
\<close>

partial_function (option) poll_loop ::
  "'s driver \<Rightarrow> pystr \<Rightarrow> pystr option \<Rightarrow> real \<Rightarrow> 's world \<Rightarrow> ((exn + status) \<times> 's world) option"
  where
  "poll_loop d original_url cover_letter_text deadline w =
     (case clock_read d w of
        (now, w0) \<Rightarrow>
          if now < deadline then
            (case poll_round d original_url cover_letter_text w0 of
               (Inl e, w1) \<Rightarrow> Some (Inl e, w1)
             | (Inr (Some st), w1) \<Rightarrow> Some (Inr st, w1)
             | (Inr None, w1) \<Rightarrow>
                 (case wait_for_timeout d 200 w1 of
                    (Inl e, w2) \<Rightarrow> Some (Inl e, w2)
                  | (Inr u, w2) \<Rightarrow> poll_loop d original_url cover_letter_text deadline w2))
          else Some (Inr Unknown, w0))"

text \<open>
  \<^verbatim>\<open>
  def click_apply_on_card(page, card, cover_letter_text=None, *, poll_timeout_sec=6.0) -> str:
      original_url = page.url
      card.scroll_into_view_if_needed(timeout=10_000)
      apply_btn = card.locator('[data-qa="vacancy-serp__vacancy_response"]').first
      if apply_btn.count() == 0:
          return "no_apply_button"
      apply_btn.click()
      deadline = time.time() + poll_timeout_sec
      while time.time() < deadline: ...
  \<close>
\<close>

definition click_apply_on_card ::
  "'s driver \<Rightarrow> locator \<Rightarrow> pystr option \<Rightarrow> real \<Rightarrow> 's world
     \<Rightarrow> ((exn + status) \<times> 's world) option" where
  "click_apply_on_card d card_loc cover_letter_text poll_timeout_sec w =
     (let original_url = page_url d (page w) in
      case scroll_into_view_if_needed d card_loc 10000 w of
        (Inl e, w1) \<Rightarrow> Some (Inl e, w1)
      | (Inr u, w1) \<Rightarrow>
          (case count d (resp_of card_loc) w1 of
             (Inl e, w2) \<Rightarrow> Some (Inl e, w2)
           | (Inr n, w2) \<Rightarrow>
               if n = 0 then Some (Inr NoApplyButton, w2)
               else
                 (case click d (resp_of card_loc) None w2 of
                    (Inl e, w3) \<Rightarrow> Some (Inl e, w3)
                  | (Inr u', w3) \<Rightarrow>
                      (case clock_read d w3 of
                         (now, w4) \<Rightarrow>
                           poll_loop d original_url cover_letter_text
                             (now + poll_timeout_sec) w4))))"

section \<open>The cover letter and the orchestrator's step for one vacancy\<close>

text \<open>
  \<^verbatim>\<open>
  def generate_cover_letter(vacancy_title, vacancy_description=None, custom_template=None):
      if custom_template:
          return custom_template
      template = f"""<greeting> "{vacancy_title}". <closing>"""
      return template
  \<close>
  The two constant parts of the template, as code points.
\<close>

definition template_head :: pystr where
  "template_head =
     [1047, 1076, 1088, 1072, 1074, 1089, 1090, 1074, 1091, 1081, 1090, 1077, 33, 10, 10,
      1052, 1077, 1085, 1103, 32, 1079, 1072, 1080, 1085, 1090, 1077, 1088, 1077, 1089,
      1086, 1074, 1072, 1083, 1072, 32, 1074, 1072, 1082, 1072, 1085, 1089, 1080, 1103, 32,
      34]"

definition template_tail :: pystr where
  "template_tail =
     [34, 46, 10, 10, 1043, 1086, 1090, 1086, 1074, 32, 1086, 1073, 1089, 1091, 1076, 1080,
      1090, 1100, 32, 1076, 1077, 1090, 1072, 1083, 1080, 32, 1080, 32, 1086, 1090, 1074,
      1077, 1090, 1080, 1090, 1100, 32, 1085, 1072, 32, 1074, 1072, 1096, 1080, 32, 1074,
      1086, 1087, 1088, 1086, 1089, 1099, 46, 10, 10, 1057, 32, 1091, 1074, 1072, 1078,
      1077, 1085, 1080, 1077, 1084]"

definition generate_cover_letter :: "pystr \<Rightarrow> pystr option \<Rightarrow> pystr option \<Rightarrow> pystr" where
  "generate_cover_letter vacancy_title vacancy_description custom_template =
     (if truthy custom_template then text_of custom_template
      else template_head @ vacancy_title @ template_tail)"

text \<open>
  The body of the apply loop of \<open>run\<close>, for one vacancy \<open>v\<close>:
  \<^verbatim>\<open>
      card = find_card_by_vacancy_id(page, v.vacancy_id)
      if card.count() == 0:
          continue
      cover_letter = generate_cover_letter(v.title, v.description, cover_letter_template)
      status = click_apply_on_card(page, card, cover_letter_text=cover_letter)
      if status == "sent":
          continue
      elif status == "cover_letter_filled":
          continue
      card_again = find_card_by_vacancy_id(page, v.vacancy_id)
      if card_again.count() > 0:
          hidden = hide_vacancy_card(page, card_again)
  \<close>
  The result is the status of the attempt (\<open>None\<close> when the card was not found); the
  run has no \<open>try\<close> around the step, so an exception of the step ends the run.
\<close>

definition run_apply_step ::
  "'s driver \<Rightarrow> pystr option \<Rightarrow> vacancy \<Rightarrow> 's world
     \<Rightarrow> ((exn + status option) \<times> 's world) option" where
  "run_apply_step d cover_letter_template v w =
     (let card_loc = find_card_by_vacancy_id (vacancy_id v) in
      case count d card_loc w of
        (Inl e, w1) \<Rightarrow> Some (Inl e, w1)
      | (Inr n, w1) \<Rightarrow>
          if n = 0 then Some (Inr None, w1)
          else
            let cover_letter = generate_cover_letter (title v) (description v)
                                 cover_letter_template in
            (case click_apply_on_card d card_loc (Some cover_letter) 6 w1 of
               None \<Rightarrow> None
             | Some (Inl e, w2) \<Rightarrow> Some (Inl e, w2)
             | Some (Inr st, w2) \<Rightarrow>
                 if st = Sent \<or> st = CoverLetterFilled then Some (Inr (Some st), w2)
                 else
                   (case bind (count d card_loc) (\<lambda>m.
                            if m > 0 then bind (hide_vacancy_card d card_loc 5000) (\<lambda>h. ret ())
                            else ret ()) w2 of
                      (Inl e, w3) \<Rightarrow> Some (Inl e, w3)
                    | (Inr u, w3) \<Rightarrow> Some (Inr (Some st), w3))))"

section \<open>Quiet scroll rounds\<close>



text \<open>The calls made since a history of length \<open>k\<close>, and some ways to read them.\<close>

definition calls_since :: "nat \<Rightarrow> 's world \<Rightarrow> (call \<times> outcome) list" where
  "calls_since k w = drop k (calls w)"


definition href_text :: "pystr option \<Rightarrow> pystr" where
  "href_text attr = (case attr of None \<Rightarrow> [] | Some h \<Rightarrow> h)"

section \<open>A scripted browser\<close>

text \<open>
  A small browser to run the model on: the page that is shown, the pages that later
  clicks and navigations lead to, a clock that only the pauses advance, a scroll
  position, and the calls that are made to fail. Every click, navigation and scroll to
  the bottom that succeeds moves on to the next page of the script.
\<close>

record snapshot =
  s_url :: pystr
  s_count :: "locator \<Rightarrow> nat"
  s_texts :: "locator \<Rightarrow> pystr"
  s_hrefs :: "locator \<Rightarrow> pystr option"

record browser =
  shown :: snapshot
  later :: "snapshot list"
  clock :: real
  scroll_y :: nat
  failing :: "call \<Rightarrow> exn option"

definition advance :: "browser \<Rightarrow> browser" where
  "advance b = (case later b of [] \<Rightarrow> b | s # ss \<Rightarrow> b\<lparr>shown := s, later := ss\<rparr>)"

definition attempt :: "browser \<Rightarrow> call \<Rightarrow> (exn + 'a) \<times> browser \<Rightarrow> (exn + 'a) \<times> browser" where
  "attempt b c r = (case failing b c of Some e \<Rightarrow> (Inl e, b) | None \<Rightarrow> r)"

definition sim :: "browser driver" where
  "sim =
     \<lparr>page_url = (\<lambda>b. s_url (shown b)),
      time_time = (\<lambda>b. (clock b, b)),
      loc_count = (\<lambda>l b. attempt b (Count l) (Inr (s_count (shown b) l), b)),
      loc_click = (\<lambda>l t b. attempt b (Click l)
         (if s_count (shown b) l = 0 then (Inl TimeoutError, b) else (Inr (), advance b))),
      loc_fill = (\<lambda>l s b. attempt b (Fill l s)
         (if s_count (shown b) l = 0 then (Inl TimeoutError, b) else (Inr (), b))),
      loc_wait_for = (\<lambda>l st t b. attempt b (WaitFor l st)
         (if (st = Visible) = (s_count (shown b) l = 0) then (Inl TimeoutError, b)
          else (Inr (), b))),
      loc_scroll_into_view = (\<lambda>l t b. attempt b (ScrollIntoView l)
         (if s_count (shown b) l = 0 then (Inl TimeoutError, b)
          else (Inr (), b\<lparr>scroll_y := scroll_y b + 1\<rparr>))),
      loc_inner_text = (\<lambda>l b. attempt b (InnerText l)
         (if s_count (shown b) l = 0 then (Inl TimeoutError, b)
          else (Inr (s_texts (shown b) l), b))),
      loc_get_href = (\<lambda>l b. attempt b (GetHref l)
         (if s_count (shown b) l = 0 then (Inl TimeoutError, b)
          else (Inr (s_hrefs (shown b) l), b))),
      page_wait_for_timeout = (\<lambda>ms b. attempt b (WaitForTimeout ms)
         (Inr (), b\<lparr>clock := clock b + real_of_int ms / 1000\<rparr>)),
      page_wait_for_selector = (\<lambda>sel t b. attempt b (WaitForSelector sel)
         (if s_count (shown b) (Page sel) = 0 then (Inl TimeoutError, b) else (Inr (), b))),
      page_go_back = (\<lambda>b. attempt b GoBack (Inr (), advance b)),
      page_goto = (\<lambda>u b. attempt b (Goto u) (Inr (), advance b)),
      page_scroll_to_bottom = (\<lambda>b. attempt b ScrollToBottom
         (Inr (), advance (b\<lparr>scroll_y := scroll_y b + 1000\<rparr>)))\<rparr>"

definition no_failures :: "call \<Rightarrow> exn option" where
  "no_failures c = None"

definition start :: "snapshot \<Rightarrow> snapshot list \<Rightarrow> (call \<Rightarrow> exn option) \<Rightarrow> browser world" where
  "start s ss f =
     \<lparr>page = \<lparr>shown = s, later = ss, clock = 0, scroll_y = 0, failing = f\<rparr>, calls = []\<rparr>"

text \<open>Pages for the runs below: the address of the listing, and what each page shows.\<close>

definition serp_url :: pystr where
  "serp_url = [115, 101, 114, 112]"

definition everything :: snapshot where
  "everything =
     \<lparr>s_url = serp_url, s_count = (\<lambda>l. 1), s_texts = (\<lambda>l. []), s_hrefs = (\<lambda>l. None)\<rparr>"

definition nothing :: snapshot where
  "nothing =
     \<lparr>s_url = serp_url, s_count = (\<lambda>l. 0), s_texts = (\<lambda>l. []), s_hrefs = (\<lambda>l. None)\<rparr>"

text \<open>The modal that demands a cover letter is open and no success toast is shown.\<close>

definition modal_page :: snapshot where
  "modal_page =
     \<lparr>s_url = serp_url,
      s_count = (\<lambda>l. if l = Page SuccessToast \<or> l = First (Page SuccessToast) then 0 else 1),
      s_texts = (\<lambda>l. []), s_hrefs = (\<lambda>l. None)\<rparr>"

text \<open>
  A card of the listing, a page that shows this card without an apply button, a page at
  another address, a script in which one chosen call times out, and a vacancy.
\<close>

definition card0 :: locator where
  "card0 = find_card_by_vacancy_id [49, 50, 51]"

definition bare_card_page :: snapshot where
  "bare_card_page =
     \<lparr>s_url = serp_url, s_count = (\<lambda>l. if l = card0 then 1 else 0),
      s_texts = (\<lambda>l. []), s_hrefs = (\<lambda>l. None)\<rparr>"

definition redirect_page :: snapshot where
  "redirect_page =
     \<lparr>s_url = [113], s_count = (\<lambda>l. 0), s_texts = (\<lambda>l. []), s_hrefs = (\<lambda>l. None)\<rparr>"

definition failing_on :: "call \<Rightarrow> call \<Rightarrow> exn option" where
  "failing_on c c' = (if c' = c then Some TimeoutError else None)"

definition vacancy0 :: vacancy where
  "vacancy0 = \<lparr>vacancy_id = [49, 50, 51], title = [81, 65], watchers_text = [],
     watchers_count = None, description = None\<rparr>"


text \<open>
  A listing of four cards: the first and the last can be applied to and link to a
  vacancy, the second has no apply button, the link of the third is no vacancy link;
  only the last shows a viewers line. The two vacancies that the parser finds there.
\<close>

definition listing :: snapshot where
  "listing =
     \<lparr>s_url = serp_url,
      s_count = (\<lambda>l.
        if l = Page VacancyCard then 4
        else if l \<in> set [resp_of (card_at 0), First (Within (card_at 0) TitleText),
                          title_link_of (card_at 0),
                          First (Within (card_at 1) TitleText), title_link_of (card_at 1),
                          resp_of (card_at 2), First (Within (card_at 2) TitleText),
                          title_link_of (card_at 2),
                          resp_of (card_at 3), First (Within (card_at 3) TitleText),
                          title_link_of (card_at 3), First (Within (card_at 3) WatchersSpan)]
        then 1 else 0),
      s_texts = (\<lambda>l.
        if l = First (Within (card_at 0) TitleText) then [32, 81, 65, 32]
        else if l = First (Within (card_at 3) WatchersSpan) then [1057, 32, 52]
        else [68]),
      s_hrefs = (\<lambda>l.
        if l = title_link_of (card_at 0) then Some [47, 118, 97, 99, 97, 110, 99, 121, 47, 49, 50, 51]
        else if l = title_link_of (card_at 2) then Some [47, 99, 111, 47, 57]
        else if l = title_link_of (card_at 3)
          then Some [47, 118, 97, 99, 97, 110, 99, 121, 47, 55, 55, 97]
        else None)\<rparr>"

definition vacancy_123 :: vacancy where
  "vacancy_123 =
     \<lparr>vacancy_id = [49, 50, 51], title = [81, 65], watchers_text = watchers_placeholder,
      watchers_count = None, description = None\<rparr>"

definition vacancy_77 :: vacancy where
  "vacancy_77 =
     \<lparr>vacancy_id = [55, 55], title = [68], watchers_text = [1057, 32, 52],
      watchers_count = Some 4, description = None\<rparr>"

text \<open>
  A history backs a vacancy when it shows a card whose apply locator matched and whose
  link yielded the identifier of the vacancy.
\<close>

definition backed :: "digit_table \<Rightarrow> (call \<times> outcome) list \<Rightarrow> vacancy \<Rightarrow> bool" where
  "backed dv h v =
     (\<exists>i n a. n \<noteq> 0
        \<and> (Count (resp_of (card_at i)), Num n) \<in> set h
        \<and> (GetHref (title_link_of (card_at i)), StrOpt a) \<in> set h
        \<and> re_search_vacancy dv (href_text a) = Some (vacancy_id v))"

section \<open>Properties of the text extraction helper\<close>









text \<open>
  Replacing U+00A0 by a blank maps a non-digit to a non-digit and leaves every other
  character alone, so it commutes with skipping non-digits and with taking digits.
\<close>

lemma is_digit_replace:
  assumes "dv 160 = None" and "dv 32 = None"
  shows "is_digit dv (if c = 160 then 32 else c) = is_digit dv c"
  using assms by (simp add: is_digit_def)








section \<open>Properties of the outcome classifier\<close>

lemmas sim_defs = sim_def attempt_def advance_def no_failures_def start_def
  perform_def count_def click_def fill_def wait_for_def scroll_into_view_if_needed_def
  inner_text_def get_href_def wait_for_timeout_def wait_for_selector_def go_back_def goto_def
  scroll_to_bottom_def clock_read_def bind_def ret_def raise_def try_except_def

text \<open>
  C1. In every polling round that the classifier runs on a page where the success toast
  is present, the round, and with it the classifier's loop, returns \<open>sent\<close>: the toast
  is looked for first and the modal is not consulted at all (the only driver call of the
  round is the count of the toast), whether or not the cover-letter modal is open and
  whatever cover letter was passed.
\<close>

theorem success_toast_has_priority:
  assumes "clock_read d w = (now, w0)" and "now < deadline"
    and "loc_count d (Page SuccessToast) (page w0) = (Inr n, s1)" and "n \<noteq> 0"
  shows "poll_round d original_url cover_letter_text w0 =
           (Inr (Some Sent),
            \<lparr>page = s1, calls = calls w0 @ [(Count (Page SuccessToast), Num n)]\<rparr>)
       \<and> poll_loop d original_url cover_letter_text deadline w =
           Some (Inr Sent,
            \<lparr>page = s1, calls = calls w0 @ [(Count (Page SuccessToast), Num n)]\<rparr>)"
proof -
  have r: "poll_round d original_url cover_letter_text w0 =
      (Inr (Some Sent), \<lparr>page = s1, calls = calls w0 @ [(Count (Page SuccessToast), Num n)]\<rparr>)"
    using assms(3,4) by (simp add: poll_round_def bind_def count_def perform_def ret_def)
  have "poll_loop d original_url cover_letter_text deadline w =
      Some (Inr Sent, \<lparr>page = s1, calls = calls w0 @ [(Count (Page SuccessToast), Num n)]\<rparr>)"
    by (subst poll_loop.simps) (simp add: assms(1,2) r)
  with r show ?thesis by simp
qed

text \<open>
  A page on which the toast and the modal are both present: the modal check would
  succeed there, and the loop returns \<open>sent\<close> without and with a cover letter.
\<close>

theorem success_toast_has_priority_witness:
  "clock_read sim (start everything [] no_failures) = (0, start everything [] no_failures)
   \<and> (0::real) < 6
   \<and> loc_count sim (Page SuccessToast) (page (start everything [] no_failures))
       = (Inr 1, page (start everything [] no_failures))
   \<and> fst (is_cover_letter_required_modal sim (start everything [] no_failures)) = Inr True
   \<and> map_option fst (poll_loop sim serp_url None 6 (start everything [] no_failures))
       = Some (Inr Sent)
   \<and> map_option fst (poll_loop sim serp_url (Some [72, 105]) 6
         (start everything [] no_failures))
       = Some (Inr Sent)"
proof -
  let ?w = "start everything [] no_failures"
  have c: "clock_read sim ?w = (0, ?w)"
    by (simp add: sim_defs everything_def)
  have t: "loc_count sim (Page SuccessToast) (page ?w) = (Inr 1, page ?w)"
    by (simp add: sim_defs everything_def)
  have m: "fst (is_cover_letter_required_modal sim ?w) = Inr True"
    by (simp add: is_cover_letter_required_modal_def dlg_def letter_input_def sim_defs
        everything_def)
  show ?thesis
    using c t m success_toast_has_priority [OF c _ t, of 6 serp_url None]
      success_toast_has_priority [OF c _ t, of 6 serp_url "Some [72, 105]"]
    by simp
qed

lemmas prog_defs = is_cover_letter_required_modal_def fill_and_submit_cover_letter_def
  close_response_modal_if_open_def dlg_def letter_input_def truthy_def text_of_def
  modal_page_def everything_def nothing_def serp_url_def Let_def

text \<open>
  C2 (not met by the code). Three runs of the scripted browser in which one driver call
  times out: the click on the apply button, the scroll of the card into view, and the
  wait for the listing after the return from a redirect. None of the three calls stands
  inside a \<open>try\<close>: each time \<open>click_apply_on_card\<close> ends with the \<open>TimeoutError\<close> instead of
  a status, and the orchestrator's step for the vacancy ends with it as well.
\<close>

theorem exceptions_reach_the_orchestrator:
  "map_option fst (click_apply_on_card sim card0 (Some [72, 105]) 6
       (start everything [] (failing_on (Click (resp_of card0))))) = Some (Inl TimeoutError)
   \<and> map_option fst (run_apply_step sim None vacancy0
       (start everything [] (failing_on (Click (resp_of card0))))) = Some (Inl TimeoutError)
   \<and> map_option fst (click_apply_on_card sim card0 (Some [72, 105]) 6
       (start everything [] (failing_on (ScrollIntoView card0)))) = Some (Inl TimeoutError)
   \<and> map_option fst (click_apply_on_card sim card0 (Some [72, 105]) 6
       (start everything [redirect_page] (failing_on (WaitForSelector VacancyCard))))
     = Some (Inl TimeoutError)"
proof (intro conjI)
  show "map_option fst (click_apply_on_card sim card0 (Some [72, 105]) 6
       (start everything [] (failing_on (Click (resp_of card0))))) = Some (Inl TimeoutError)"
    by (simp add: click_apply_on_card_def sim_defs everything_def failing_on_def)
  show "map_option fst (run_apply_step sim None vacancy0
       (start everything [] (failing_on (Click (resp_of card0))))) = Some (Inl TimeoutError)"
    by (simp add: run_apply_step_def vacancy0_def card0_def Let_def
        click_apply_on_card_def sim_defs everything_def failing_on_def)
  show "map_option fst (click_apply_on_card sim card0 (Some [72, 105]) 6
       (start everything [] (failing_on (ScrollIntoView card0)))) = Some (Inl TimeoutError)"
    by (simp add: click_apply_on_card_def sim_defs everything_def failing_on_def)
  show "map_option fst (click_apply_on_card sim card0 (Some [72, 105]) 6
       (start everything [redirect_page] (failing_on (WaitForSelector VacancyCard))))
     = Some (Inl TimeoutError)"
    apply (simp add: click_apply_on_card_def sim_defs everything_def failing_on_def)
    apply (subst poll_loop.simps)
    apply (simp add: poll_round_def redirect_check_def is_test_page_def safe_go_back_to_serp_def
        sim_defs prog_defs redirect_page_def failing_on_def)
    done
qed

text \<open>
  C3 (as amended). If the scroll of the card into view returns and the apply locator
  then matches nothing, \<open>click_apply_on_card\<close> returns \<open>no_apply_button\<close>, whatever the
  cover letter and the timeout; the scroll and the count are the only driver calls it
  makes (no click, no navigation), and the page is left as these two calls left it.
\<close>

theorem no_apply_button_after_scroll:
  assumes "loc_scroll_into_view d card_loc 10000 (page w) = (Inr (), s1)"
    and "loc_count d (resp_of card_loc) s1 = (Inr 0, s2)"
  shows "click_apply_on_card d card_loc cover_letter_text poll_timeout_sec w =
     Some (Inr NoApplyButton,
       \<lparr>page = s2,
        calls = calls w @ [(ScrollIntoView card_loc, Done), (Count (resp_of card_loc), Num 0)]\<rparr>)"
  using assms
  by (simp add: click_apply_on_card_def scroll_into_view_if_needed_def count_def perform_def)

theorem no_apply_button_after_scroll_witness:
  "loc_scroll_into_view sim card0 10000 (page (start bare_card_page [] no_failures))
     = (Inr (), (page (start bare_card_page [] no_failures))\<lparr>scroll_y := 1\<rparr>)
   \<and> loc_count sim (resp_of card0) ((page (start bare_card_page [] no_failures))\<lparr>scroll_y := 1\<rparr>)
     = (Inr 0, (page (start bare_card_page [] no_failures))\<lparr>scroll_y := 1\<rparr>)
   \<and> click_apply_on_card sim card0 (Some [72, 105]) 6 (start bare_card_page [] no_failures)
     = Some (Inr NoApplyButton,
         \<lparr>page = (page (start bare_card_page [] no_failures))\<lparr>scroll_y := 1\<rparr>,
          calls = [(ScrollIntoView card0, Done), (Count (resp_of card0), Num 0)]\<rparr>)"
proof -
  let ?b = "page (start bare_card_page [] no_failures)"
  have a: "loc_scroll_into_view sim card0 10000 ?b = (Inr (), ?b\<lparr>scroll_y := 1\<rparr>)"
    by (simp add: sim_defs bare_card_page_def)
  have b: "loc_count sim (resp_of card0) (?b\<lparr>scroll_y := 1\<rparr>) = (Inr 0, ?b\<lparr>scroll_y := 1\<rparr>)"
    by (simp add: sim_defs bare_card_page_def card0_def resp_of_def find_card_by_vacancy_id_def)
  have "calls (start bare_card_page [] no_failures) = []"
    by (simp add: start_def)
  with a b no_apply_button_after_scroll [OF a b, of "Some [72, 105]" 6] show ?thesis
    by simp
qed

text \<open>
  The claim as stated fails: on a card without an apply button the call returns
  \<open>no_apply_button\<close>, but the card was scrolled into view first, and the page is not
  the page it was before the call.
\<close>

theorem no_apply_button_counterexample:
  "loc_count sim (resp_of card0) (page (start bare_card_page [] no_failures))
     = (Inr 0, page (start bare_card_page [] no_failures))
   \<and> map_option fst (click_apply_on_card sim card0 None 6 (start bare_card_page [] no_failures))
     = Some (Inr NoApplyButton)
   \<and> scroll_y (page (start bare_card_page [] no_failures)) = 0
   \<and> map_option (\<lambda>r. scroll_y (page (snd r)))
        (click_apply_on_card sim card0 None 6 (start bare_card_page [] no_failures)) = Some 1
   \<and> map_option (\<lambda>r. page (snd r))
        (click_apply_on_card sim card0 None 6 (start bare_card_page [] no_failures))
     \<noteq> Some (page (start bare_card_page [] no_failures))"
  by (simp add: click_apply_on_card_def sim_defs bare_card_page_def card0_def resp_of_def
      find_card_by_vacancy_id_def)




section \<open>Properties of the cover letter\<close>



section \<open>Properties of hiding a vacancy\<close>

lemmas act_defs = bind_def try_except_def ret_def raise_def count_def click_def fill_def
  wait_for_def scroll_into_view_if_needed_def inner_text_def get_href_def wait_for_timeout_def
  wait_for_selector_def go_back_def goto_def scroll_to_bottom_def perform_def

text \<open>
  Every run of \<open>hide_vacancy_card\<close> makes one of seven sequences of driver calls, and the
  sequence determines the result.
\<close>

lemma hide_vacancy_card_trace:
  "\<exists>ev. calls (snd (hide_vacancy_card d c t w)) = calls w @ ev \<and>
     ((\<exists>e. fst (hide_vacancy_card d c t w) = Inl e
          \<and> ev = [(Count (hide_icon_of c), Raised e)])
      \<or> (fst (hide_vacancy_card d c t w) = Inr False
          \<and> ev = [(Count (hide_icon_of c), Num 0)])
      \<or> (\<exists>n e. fst (hide_vacancy_card d c t w) = Inl e
          \<and> ev = [(Count (hide_icon_of c), Num n), (ScrollIntoView c, Raised e)])
      \<or> (\<exists>n e. fst (hide_vacancy_card d c t w) = Inr False
          \<and> ev = [(Count (hide_icon_of c), Num n), (ScrollIntoView c, Done),
                  (Click (hide_icon_of c), Raised e)])
      \<or> (\<exists>n e. fst (hide_vacancy_card d c t w) = Inr False
          \<and> ev = [(Count (hide_icon_of c), Num n), (ScrollIntoView c, Done),
                  (Click (hide_icon_of c), Done), (WaitFor menu_item Visible, Raised e)])
      \<or> (\<exists>n e. fst (hide_vacancy_card d c t w) = Inr False
          \<and> ev = [(Count (hide_icon_of c), Num n), (ScrollIntoView c, Done),
                  (Click (hide_icon_of c), Done), (WaitFor menu_item Visible, Done),
                  (Click menu_item, Raised e)])
      \<or> (\<exists>n out. fst (hide_vacancy_card d c t w) = Inr True
          \<and> ev = [(Count (hide_icon_of c), Num n), (ScrollIntoView c, Done),
                  (Click (hide_icon_of c), Done), (WaitFor menu_item Visible, Done),
                  (Click menu_item, Done), (WaitFor c Detached, out)]))"
  by (simp add: hide_vacancy_card_def act_defs split: prod.splits sum.splits)

text \<open>
  C8. \<open>hide_vacancy_card\<close> returns true only if the click on the hide button and the
  click on the menu item both returned; if the card shows no hide button it returns
  false; if one of the two clicks or the wait for the menu item raises, it returns
  false and raises nothing; if the wait for the card to be detached raises, the result
  is still true. It raises only what the count of the hide button or the scroll of the
  card into view raised.
\<close>

theorem hide_vacancy_card_result:
  "(fst (hide_vacancy_card d c t w) = Inr True \<longrightarrow>
      (Click (hide_icon_of c), Done)
          \<in> set (calls_since (length (calls w)) (snd (hide_vacancy_card d c t w)))
      \<and> (Click menu_item, Done)
          \<in> set (calls_since (length (calls w)) (snd (hide_vacancy_card d c t w))))
   \<and> (loc_count d (hide_icon_of c) (page w) = (Inr 0, s1) \<longrightarrow>
        hide_vacancy_card d c t w
          = (Inr False, \<lparr>page = s1, calls = calls w @ [(Count (hide_icon_of c), Num 0)]\<rparr>))
   \<and> ((Click (hide_icon_of c), Raised e)
          \<in> set (calls_since (length (calls w)) (snd (hide_vacancy_card d c t w)))
        \<or> (WaitFor menu_item Visible, Raised e)
          \<in> set (calls_since (length (calls w)) (snd (hide_vacancy_card d c t w)))
        \<or> (Click menu_item, Raised e)
          \<in> set (calls_since (length (calls w)) (snd (hide_vacancy_card d c t w)))
        \<longrightarrow> fst (hide_vacancy_card d c t w) = Inr False)
   \<and> ((WaitFor c Detached, Raised e)
          \<in> set (calls_since (length (calls w)) (snd (hide_vacancy_card d c t w)))
        \<longrightarrow> fst (hide_vacancy_card d c t w) = Inr True)
   \<and> (fst (hide_vacancy_card d c t w) = Inl e \<longrightarrow>
        (Count (hide_icon_of c), Raised e)
          \<in> set (calls_since (length (calls w)) (snd (hide_vacancy_card d c t w)))
        \<or> (ScrollIntoView c, Raised e)
          \<in> set (calls_since (length (calls w)) (snd (hide_vacancy_card d c t w))))"
proof -
  have none: "loc_count d (hide_icon_of c) (page w) = (Inr 0, s1) \<longrightarrow>
      hide_vacancy_card d c t w
        = (Inr False, \<lparr>page = s1, calls = calls w @ [(Count (hide_icon_of c), Num 0)]\<rparr>)"
    by (simp add: hide_vacancy_card_def act_defs)
  from hide_vacancy_card_trace [of d c t w] obtain ev
    where ev: "calls (snd (hide_vacancy_card d c t w)) = calls w @ ev"
      and shape: "(\<exists>e. fst (hide_vacancy_card d c t w) = Inl e
          \<and> ev = [(Count (hide_icon_of c), Raised e)])
      \<or> (fst (hide_vacancy_card d c t w) = Inr False
          \<and> ev = [(Count (hide_icon_of c), Num 0)])
      \<or> (\<exists>n e. fst (hide_vacancy_card d c t w) = Inl e
          \<and> ev = [(Count (hide_icon_of c), Num n), (ScrollIntoView c, Raised e)])
      \<or> (\<exists>n e. fst (hide_vacancy_card d c t w) = Inr False
          \<and> ev = [(Count (hide_icon_of c), Num n), (ScrollIntoView c, Done),
                  (Click (hide_icon_of c), Raised e)])
      \<or> (\<exists>n e. fst (hide_vacancy_card d c t w) = Inr False
          \<and> ev = [(Count (hide_icon_of c), Num n), (ScrollIntoView c, Done),
                  (Click (hide_icon_of c), Done), (WaitFor menu_item Visible, Raised e)])
      \<or> (\<exists>n e. fst (hide_vacancy_card d c t w) = Inr False
          \<and> ev = [(Count (hide_icon_of c), Num n), (ScrollIntoView c, Done),
                  (Click (hide_icon_of c), Done), (WaitFor menu_item Visible, Done),
                  (Click menu_item, Raised e)])
      \<or> (\<exists>n out. fst (hide_vacancy_card d c t w) = Inr True
          \<and> ev = [(Count (hide_icon_of c), Num n), (ScrollIntoView c, Done),
                  (Click (hide_icon_of c), Done), (WaitFor menu_item Visible, Done),
                  (Click menu_item, Done), (WaitFor c Detached, out)])"
    by blast
  have since: "calls_since (length (calls w)) (snd (hide_vacancy_card d c t w)) = ev"
    using ev by (simp add: calls_since_def)
  show ?thesis
    unfolding since using none shape
    by (auto simp: hide_icon_of_def menu_item_def)
qed

theorem hide_vacancy_card_result_witness:
  "fst (hide_vacancy_card sim card0 5000 (start everything [] no_failures)) = Inr True
   \<and> (Click (hide_icon_of card0), Done)
        \<in> set (calls (snd (hide_vacancy_card sim card0 5000 (start everything [] no_failures))))
   \<and> (Click menu_item, Done)
        \<in> set (calls (snd (hide_vacancy_card sim card0 5000 (start everything [] no_failures))))
   \<and> (WaitFor card0 Detached, Raised TimeoutError)
        \<in> set (calls (snd (hide_vacancy_card sim card0 5000 (start everything [] no_failures))))
   \<and> loc_count sim (hide_icon_of card0) (page (start nothing [] no_failures))
        = (Inr 0, page (start nothing [] no_failures))
   \<and> fst (hide_vacancy_card sim card0 5000 (start nothing [] no_failures)) = Inr False
   \<and> (Click (hide_icon_of card0), Raised TimeoutError)
        \<in> set (calls (snd (hide_vacancy_card sim card0 5000
             (start everything [] (failing_on (Click (hide_icon_of card0)))))))
   \<and> fst (hide_vacancy_card sim card0 5000
        (start everything [] (failing_on (Click (hide_icon_of card0))))) = Inr False
   \<and> fst (hide_vacancy_card sim card0 5000
        (start everything [] (failing_on (ScrollIntoView card0)))) = Inl TimeoutError
   \<and> (ScrollIntoView card0, Raised TimeoutError)
        \<in> set (calls (snd (hide_vacancy_card sim card0 5000
             (start everything [] (failing_on (ScrollIntoView card0))))))"
proof -
  let ?ok = "start everything [] no_failures"
  let ?no = "start nothing [] no_failures"
  let ?cf = "start everything [] (failing_on (Click (hide_icon_of card0)))"
  let ?sf = "start everything [] (failing_on (ScrollIntoView card0))"
  have e: "calls ?ok = []" "calls ?no = []" "calls ?cf = []" "calls ?sf = []"
    by (simp_all add: start_def)
  have a: "fst (hide_vacancy_card sim card0 5000 ?ok) = Inr True"
    by (simp add: hide_vacancy_card_def sim_defs everything_def)
  have d: "(WaitFor card0 Detached, Raised TimeoutError)
      \<in> set (calls (snd (hide_vacancy_card sim card0 5000 ?ok)))"
    by (simp add: hide_vacancy_card_def sim_defs everything_def)
  have n: "loc_count sim (hide_icon_of card0) (page ?no) = (Inr 0, page ?no)"
    by (simp add: sim_defs nothing_def)
  have c: "(Click (hide_icon_of card0), Raised TimeoutError)
      \<in> set (calls (snd (hide_vacancy_card sim card0 5000 ?cf)))"
    by (simp add: hide_vacancy_card_def sim_defs everything_def failing_on_def hide_icon_of_def)
  have s: "fst (hide_vacancy_card sim card0 5000 ?sf) = Inl TimeoutError"
    by (simp add: hide_vacancy_card_def sim_defs everything_def failing_on_def hide_icon_of_def)
  from a d hide_vacancy_card_result [of sim card0 5000 ?ok "page ?no" TimeoutError]
  have 1: "(Click (hide_icon_of card0), Done)
        \<in> set (calls (snd (hide_vacancy_card sim card0 5000 ?ok)))
      \<and> (Click menu_item, Done)
        \<in> set (calls (snd (hide_vacancy_card sim card0 5000 ?ok)))"
    by (simp add: calls_since_def e)
  from n hide_vacancy_card_result [of sim card0 5000 ?no "page ?no" TimeoutError]
  have 2: "fst (hide_vacancy_card sim card0 5000 ?no) = Inr False"
    by simp
  from c hide_vacancy_card_result [of sim card0 5000 ?cf "page ?no" TimeoutError]
  have 3: "fst (hide_vacancy_card sim card0 5000 ?cf) = Inr False"
    by (simp add: calls_since_def e)
  have nc: "(Count (hide_icon_of card0), Raised TimeoutError)
        \<notin> set (calls (snd (hide_vacancy_card sim card0 5000 ?sf)))"
    by (simp add: hide_vacancy_card_def sim_defs everything_def failing_on_def hide_icon_of_def)
  from s nc hide_vacancy_card_result [of sim card0 5000 ?sf "page ?no" TimeoutError]
  have 4: "(ScrollIntoView card0, Raised TimeoutError)
        \<in> set (calls (snd (hide_vacancy_card sim card0 5000 ?sf)))"
    by (simp add: calls_since_def e)
  from a d n c s 1 2 3 4 show ?thesis
    by blast
qed

section \<open>Properties of the listing loader\<close>











section \<open>Properties of the listing parser\<close>

text \<open>
  What a successful search for \<open>/vacancy/(\d+)\<close> says about the link: it holds the
  literal, followed by the group, a non-empty run of digits that cannot be extended.
\<close>

lemma match_vacancy_at_SomeD:
  assumes "match_vacancy_at dv s = Some g"
  shows "\<exists>post. s = vacancy_literal @ g @ post \<and> g \<noteq> [] \<and> (\<forall>c \<in> set g. is_digit dv c)
     \<and> (post = [] \<or> \<not> is_digit dv (hd post))"
proof -
  from assms have p: "prefix vacancy_literal s"
    and g: "takeWhile (is_digit dv) (drop (length vacancy_literal) s) = g" and ne: "g \<noteq> []"
    by (auto simp: match_vacancy_at_def split: if_splits list.splits)
  from p obtain r where s: "s = vacancy_literal @ r"
    by (auto simp: prefix_def)
  with g have "takeWhile (is_digit dv) r = g"
    by simp
  then have r: "r = g @ dropWhile (is_digit dv) r"
    by (metis takeWhile_dropWhile_id)
  have "dropWhile (is_digit dv) r = [] \<or> \<not> is_digit dv (hd (dropWhile (is_digit dv) r))"
    using hd_dropWhile [of "is_digit dv" r] by blast
  moreover have "\<forall>c \<in> set g. is_digit dv c"
    using g by (auto dest: set_takeWhileD)
  ultimately show ?thesis
    using s r ne by metis
qed

lemma re_search_vacancy_SomeD:
  "re_search_vacancy dv s = Some g \<Longrightarrow>
     \<exists>pre post. s = pre @ vacancy_literal @ g @ post \<and> g \<noteq> [] \<and> (\<forall>c \<in> set g. is_digit dv c)
       \<and> (post = [] \<or> \<not> is_digit dv (hd post))"
proof (induction s)
  case Nil
  then show ?case by simp
next
  case (Cons c cs)
  show ?case
  proof (cases "match_vacancy_at dv (c # cs)")
    case (Some g')
    with Cons.prems have "g' = g"
      by simp
    with Some match_vacancy_at_SomeD [of dv "c # cs" g] show ?thesis
      by (metis append_Nil)
  next
    case None
    with Cons.prems have "re_search_vacancy dv cs = Some g"
      by simp
    from Cons.IH [OF this] obtain pre post where "cs = pre @ vacancy_literal @ g @ post"
      "g \<noteq> []" "\<forall>c \<in> set g. is_digit dv c" "post = [] \<or> \<not> is_digit dv (hd post)"
      by blast
    then show ?thesis
      by (metis append_Cons)
  qed
qed

lemma bind_InrE:
  assumes "bind m f w = (Inr y, w')"
  obtains x w1 where "m w = (Inr x, w1)" and "f x w1 = (Inr y, w')"
  using assms by (auto simp: bind_def split: prod.splits sum.splits)

lemma perform_calls:
  "perform c out f w = (Inr x, w1) \<Longrightarrow> calls w1 = calls w @ [(c, out x)]"
  by (auto simp: perform_def split: prod.splits)

lemma backed_mono: "backed dv h v \<Longrightarrow> set h \<subseteq> set h' \<Longrightarrow> backed dv h' v"
  unfolding backed_def by blast

lemma drop_extend: "k \<le> length a \<Longrightarrow> set (drop k a) \<subseteq> set (drop k (a @ b))"
  by auto

declare collect_loop.simps(2) [simp del]

lemma collect_loop_inv:
  assumes "collect_loop d dv limit idx res w = (Inr vs, w')"
    and "\<forall>v \<in> set res. backed dv (drop k (calls w)) v"
    and "int (length res) < limit" and "k \<le> length (calls w)"
  shows "(\<forall>v \<in> set vs. backed dv (drop k (calls w')) v) \<and> int (length vs) \<le> limit"
  using assms
proof (induction idx arbitrary: res w)
  case Nil
  then show ?case
    by (simp add: ret_def)
next
  case (Cons i rest)
  let ?card = "card_at i"
  let ?wloc = "First (Within ?card WatchersSpan)"
  let ?item = "\<lambda>vid title_raw wtext wcount.
      \<lparr>vacancy_id = vid, title = strip title_raw, watchers_text = wtext,
       watchers_count = wcount, description = None\<rparr>"
  let ?K6 = "\<lambda>vid title_raw wtext wcount.
      if int (length (res @ [?item vid title_raw wtext wcount])) \<ge> limit
      then ret (res @ [?item vid title_raw wtext wcount])
      else collect_loop d dv limit rest (res @ [?item vid title_raw wtext wcount])"
  let ?K5 = "\<lambda>vid title_raw wtext.
      bind (case parse_int dv wtext of Inl e \<Rightarrow> raise e | Inr c \<Rightarrow> ret c)
        (\<lambda>wcount. ?K6 vid title_raw wtext wcount)"
  let ?W = "\<lambda>wn. if wn \<noteq> 0 then bind (inner_text d ?wloc) (\<lambda>t. ret (strip t))
      else ret watchers_placeholder"
  let ?K4 = "\<lambda>vid title_raw wn. bind (?W wn) (\<lambda>wtext. ?K5 vid title_raw wtext)"
  let ?K3 = "\<lambda>vid title_raw. bind (count d ?wloc) (\<lambda>wn. ?K4 vid title_raw wn)"
  let ?K2 = "\<lambda>title_raw attr.
      case re_search_vacancy dv (case attr of None \<Rightarrow> [] | Some h \<Rightarrow> h) of
        None \<Rightarrow> collect_loop d dv limit rest res
      | Some vid \<Rightarrow> ?K3 vid title_raw"
  let ?K1 = "\<lambda>title_raw. bind (get_href d (title_link_of ?card)) (\<lambda>attr. ?K2 title_raw attr)"
  let ?K0 = "\<lambda>n. if n = 0 then collect_loop d dv limit rest res
      else bind (inner_text d (First (Within ?card TitleText))) (\<lambda>title_raw. ?K1 title_raw)"
  from Cons.prems(1) have "bind (count d (resp_of ?card)) ?K0 w = (Inr vs, w')"
    by (simp only: collect_loop.simps(2) Let_def)
  then obtain n w1
    where c1: "count d (resp_of ?card) w = (Inr n, w1)" and r1: "?K0 n w1 = (Inr vs, w')"
    by (rule bind_InrE)
  from c1 have h1: "calls w1 = calls w @ [(Count (resp_of ?card), Num n)]"
    by (simp add: count_def perform_calls)
  with Cons.prems(4) have k1: "k \<le> length (calls w1)"
    by simp
  from h1 Cons.prems(2,4) have b1: "\<forall>v \<in> set res. backed dv (drop k (calls w1)) v"
    by (auto intro: backed_mono)
  show ?case
  proof (cases "n = 0")
    case True
    from r1 have "collect_loop d dv limit rest res w1 = (Inr vs, w')"
      unfolding if_P [OF True] .
    from Cons.IH [OF this b1 Cons.prems(3) k1] show ?thesis .
  next
    case False
    from r1 have "bind (inner_text d (First (Within ?card TitleText)))
        (\<lambda>title_raw. ?K1 title_raw) w1 = (Inr vs, w')"
      unfolding if_not_P [OF False] .
    then obtain title_raw w2
      where c2: "inner_text d (First (Within ?card TitleText)) w1 = (Inr title_raw, w2)"
        and r2: "?K1 title_raw w2 = (Inr vs, w')"
      by (rule bind_InrE)
    from r2 obtain attr w3
      where c3: "get_href d (title_link_of ?card) w2 = (Inr attr, w3)"
        and r3: "?K2 title_raw attr w3 = (Inr vs, w')"
      by (rule bind_InrE)
    from c2 have h2: "calls w2 = calls w1 @ [(InnerText (First (Within ?card TitleText)),
        Str title_raw)]"
      by (simp add: inner_text_def perform_calls)
    from c3 have h3: "calls w3 = calls w2 @ [(GetHref (title_link_of ?card), StrOpt attr)]"
      by (simp add: get_href_def perform_calls)
    from h1 h2 h3 Cons.prems(4) have k3: "k \<le> length (calls w3)"
      by simp
    from h1 h2 h3 Cons.prems(2,4) have b3: "\<forall>v \<in> set res. backed dv (drop k (calls w3)) v"
      by (auto intro: backed_mono)
    show ?thesis
    proof (cases "re_search_vacancy dv (case attr of None \<Rightarrow> [] | Some h \<Rightarrow> h)")
      case None
      from r3 have "collect_loop d dv limit rest res w3 = (Inr vs, w')"
        unfolding None option.case .
      from Cons.IH [OF this b3 Cons.prems(3) k3] show ?thesis .
    next
      case (Some vid)
      from r3 have "?K3 vid title_raw w3 = (Inr vs, w')"
        unfolding Some option.case .
      then obtain wn w4
        where c4: "count d ?wloc w3 = (Inr wn, w4)"
          and r4: "?K4 vid title_raw wn w4 = (Inr vs, w')"
        by (rule bind_InrE)
      from r4 obtain wtext w5
        where c5: "?W wn w4 = (Inr wtext, w5)"
          and r5: "?K5 vid title_raw wtext w5 = (Inr vs, w')"
        by (rule bind_InrE)
      from r5 obtain wcount w6
        where c6: "(case parse_int dv wtext of Inl e \<Rightarrow> raise e | Inr c \<Rightarrow> ret c) w5
            = (Inr wcount, w6)"
          and r6: "?K6 vid title_raw wtext wcount w6 = (Inr vs, w')"
        by (rule bind_InrE)
      let ?v = "?item vid title_raw wtext wcount"
      from c4 have h4: "calls w4 = calls w3 @ [(Count ?wloc, Num wn)]"
        by (simp add: count_def perform_calls)
      from c5 obtain ev5 where h5: "calls w5 = calls w4 @ ev5"
        by (auto simp: ret_def inner_text_def dest!: perform_calls elim!: bind_InrE
            split: if_splits)
      from c6 have h6: "w6 = w5"
        by (auto simp: ret_def raise_def split: sum.splits)
      from h1 h2 h3 h4 h5 h6
      have hist: "calls w6 = calls w @ [(Count (resp_of ?card), Num n),
          (InnerText (First (Within ?card TitleText)), Str title_raw),
          (GetHref (title_link_of ?card), StrOpt attr),
          (Count ?wloc, Num wn)] @ ev5"
        by simp
      with Cons.prems(4) have k6: "k \<le> length (calls w6)"
        by simp
      from hist Cons.prems(2,4) have b6: "\<forall>v \<in> set res. backed dv (drop k (calls w6)) v"
        by (auto intro: backed_mono)
      from hist Cons.prems(4) False Some have new: "backed dv (drop k (calls w6)) ?v"
        unfolding backed_def
        by (intro exI [of _ i] exI [of _ n] exI [of _ attr]) (simp add: href_text_def)
      from b6 new have b6': "\<forall>v \<in> set (res @ [?v]). backed dv (drop k (calls w6)) v"
        by simp
      show ?thesis
      proof (cases "int (length (res @ [?v])) \<ge> limit")
        case True
        from r6 have "ret (res @ [?v]) w6 = (Inr vs, w')"
          unfolding if_P [OF True] .
        then have "vs = res @ [?v]" "w' = w6"
          by (simp_all add: ret_def)
        with b6' Cons.prems(3) show ?thesis
          by simp
      next
        case False
        from r6 have "collect_loop d dv limit rest (res @ [?v]) w6 = (Inr vs, w')"
          unfolding if_not_P [OF False] .
        moreover from False have "int (length (res @ [?v])) < limit"
          by simp
        ultimately show ?thesis
          using Cons.IH b6' k6 by blast
      qed
    qed
  qed
qed

text \<open>
  C6. Whenever \<open>collect_vacancies_for_apply\<close> returns a list for a positive limit, the
  list has at most \<open>limit\<close> items, and every item goes back to a card of the listing
  that was visited during the call: the count of the card's apply locator was not zero
  then, and the card's link, read during the call, holds \<open>/vacancy/\<close> followed by the
  item's identifier, which is the non-empty, maximal run of digits that the search
  extracted. So a card without an apply button or without a link of that shape
  contributes no item, and no item has an empty identifier.
\<close>

theorem collect_vacancies_for_apply_sound:
  assumes "collect_vacancies_for_apply d dv limit w = (Inr vs, w')" and "0 < limit"
  shows "int (length vs) \<le> limit
     \<and> (\<forall>v \<in> set vs. \<exists>i n a pre post.
          n \<noteq> 0
          \<and> (Count (resp_of (card_at i)), Num n) \<in> set (calls_since (length (calls w)) w')
          \<and> (GetHref (title_link_of (card_at i)), StrOpt a)
              \<in> set (calls_since (length (calls w)) w')
          \<and> re_search_vacancy dv (href_text a) = Some (vacancy_id v)
          \<and> href_text a = pre @ vacancy_literal @ vacancy_id v @ post
          \<and> vacancy_id v \<noteq> [] \<and> (\<forall>c \<in> set (vacancy_id v). is_digit dv c)
          \<and> (post = [] \<or> \<not> is_digit dv (hd post)))"
proof -
  from assms(1) obtain u wa
    where "wait_for_selector d VacancyCard 30000 w = (Inr u, wa)"
      and "bind (count d (Page VacancyCard)) (\<lambda>n. collect_loop d dv limit [0..<n] []) wa
          = (Inr vs, w')"
    unfolding collect_vacancies_for_apply_def by (rule bind_InrE)
  then obtain n wb
    where ha: "calls wa = calls w @ [(WaitForSelector VacancyCard, Done)]"
      and "count d (Page VacancyCard) wa = (Inr n, wb)"
      and loop: "collect_loop d dv limit [0..<n] [] wb = (Inr vs, w')"
    by (auto simp: wait_for_selector_def dest!: perform_calls elim!: bind_InrE)
  then have "calls wb = calls wa @ [(Count (Page VacancyCard), Num n)]"
    by (simp add: count_def perform_calls)
  with ha have k: "length (calls w) \<le> length (calls wb)"
    by simp
  from assms(2) have "int (length ([] :: vacancy list)) < limit"
    by simp
  with collect_loop_inv [OF loop _ _ k]
  have b: "\<forall>v \<in> set vs. backed dv (drop (length (calls w)) (calls w')) v"
    and l: "int (length vs) \<le> limit"
    by simp_all
  have "\<exists>i n a pre post.
          n \<noteq> 0
          \<and> (Count (resp_of (card_at i)), Num n) \<in> set (calls_since (length (calls w)) w')
          \<and> (GetHref (title_link_of (card_at i)), StrOpt a)
              \<in> set (calls_since (length (calls w)) w')
          \<and> re_search_vacancy dv (href_text a) = Some (vacancy_id v)
          \<and> href_text a = pre @ vacancy_literal @ vacancy_id v @ post
          \<and> vacancy_id v \<noteq> [] \<and> (\<forall>c \<in> set (vacancy_id v). is_digit dv c)
          \<and> (post = [] \<or> \<not> is_digit dv (hd post))"
    if "v \<in> set vs" for v
  proof -
    from b that obtain i n a where f: "n \<noteq> 0"
      "(Count (resp_of (card_at i)), Num n) \<in> set (calls_since (length (calls w)) w')"
      "(GetHref (title_link_of (card_at i)), StrOpt a)
         \<in> set (calls_since (length (calls w)) w')"
      "re_search_vacancy dv (href_text a) = Some (vacancy_id v)"
      unfolding backed_def calls_since_def by blast
    from re_search_vacancy_SomeD [OF f(4)] obtain pre post
      where "href_text a = pre @ vacancy_literal @ vacancy_id v @ post"
        "vacancy_id v \<noteq> []" "\<forall>c \<in> set (vacancy_id v). is_digit dv c"
        "post = [] \<or> \<not> is_digit dv (hd post)"
      by blast
    with f show ?thesis
      by blast
  qed
  with l show ?thesis
    by blast
qed

lemmas parser_defs = collect_vacancies_for_apply_def collect_loop.simps(2) listing_def
  card_at_def resp_of_def title_link_of_def strip_def py_isspace_def watchers_placeholder_def
  vacancy_literal_def match_vacancy_at_def parse_int_def re_search_digits_def replace_char_def
  py_int_def is_digit_def ascii_dv_def vacancy_123_def vacancy_77_def serp_url_def Let_def

theorem collect_vacancies_for_apply_sound_witness:
  "(0::int) < 5
   \<and> fst (collect_vacancies_for_apply sim ascii_dv 5 (start listing [] no_failures))
       = Inr [vacancy_123, vacancy_77]
   \<and> int (length [vacancy_123, vacancy_77]) \<le> 5
   \<and> fst (collect_vacancies_for_apply sim ascii_dv 1 (start listing [] no_failures))
       = Inr [vacancy_123]
   \<and> (\<exists>i n a pre post.
        n \<noteq> 0
        \<and> (Count (resp_of (card_at i)), Num n)
            \<in> set (calls (snd (collect_vacancies_for_apply sim ascii_dv 5
                  (start listing [] no_failures))))
        \<and> (GetHref (title_link_of (card_at i)), StrOpt a)
            \<in> set (calls (snd (collect_vacancies_for_apply sim ascii_dv 5
                  (start listing [] no_failures))))
        \<and> href_text a = pre @ vacancy_literal @ [55, 55] @ post
        \<and> (post = [] \<or> \<not> is_digit ascii_dv (hd post)))"
proof -
  let ?w = "start listing [] no_failures"
  have up: "[0..<4] = [0, 1, 2, 3]"
    by (simp add: upt_rec)
  have e: "calls ?w = []"
    by (simp add: start_def)
  have r5: "collect_vacancies_for_apply sim ascii_dv 5 ?w
      = (Inr [vacancy_123, vacancy_77], snd (collect_vacancies_for_apply sim ascii_dv 5 ?w))"
    by (simp add: prod_eq_iff parser_defs sim_defs up)
  have r1: "fst (collect_vacancies_for_apply sim ascii_dv 1 ?w) = Inr [vacancy_123]"
    by (simp add: parser_defs sim_defs up)
  have p: "(0::int) < 5"
    by simp
  from collect_vacancies_for_apply_sound [OF r5 p]
  have l: "int (length [vacancy_123, vacancy_77]) \<le> 5"
    and "\<exists>i n a pre post.
        n \<noteq> 0
        \<and> (Count (resp_of (card_at i)), Num n)
            \<in> set (calls_since (length (calls ?w))
                  (snd (collect_vacancies_for_apply sim ascii_dv 5 ?w)))
        \<and> (GetHref (title_link_of (card_at i)), StrOpt a)
            \<in> set (calls_since (length (calls ?w))
                  (snd (collect_vacancies_for_apply sim ascii_dv 5 ?w)))
        \<and> re_search_vacancy ascii_dv (href_text a) = Some (vacancy_id vacancy_77)
        \<and> href_text a = pre @ vacancy_literal @ vacancy_id vacancy_77 @ post
        \<and> vacancy_id vacancy_77 \<noteq> [] \<and> (\<forall>c \<in> set (vacancy_id vacancy_77). is_digit ascii_dv c)
        \<and> (post = [] \<or> \<not> is_digit ascii_dv (hd post))"
    by simp_all
  then have x: "\<exists>i n a pre post.
        n \<noteq> 0
        \<and> (Count (resp_of (card_at i)), Num n)
            \<in> set (calls (snd (collect_vacancies_for_apply sim ascii_dv 5 ?w)))
        \<and> (GetHref (title_link_of (card_at i)), StrOpt a)
            \<in> set (calls (snd (collect_vacancies_for_apply sim ascii_dv 5 ?w)))
        \<and> href_text a = pre @ vacancy_literal @ [55, 55] @ post
        \<and> (post = [] \<or> \<not> is_digit ascii_dv (hd post))"
    unfolding calls_since_def e by (simp add: vacancy_77_def) blast
  from r5 have r5': "fst (collect_vacancies_for_apply sim ascii_dv 5 ?w)
      = Inr [vacancy_123, vacancy_77]"
    by (metis fst_conv)
  from p r5' l r1 x show ?thesis
    by blast
qed

end
